theory Spec2Isabelle
  imports Complex_Main "HOL-Library.Multiset"
begin


section \<open>Floating-point values\<close>

text \<open>
  Every number the analysis modules handle is a Python \<open>float\<close> or a \<open>numpy.float64\<close>, that
  is an IEEE-754 double. The model keeps the special values (infinities and not-a-number),
  since the code relies on them (a division by zero inside pandas does not raise), and takes
  a finite value as an exact real number: rounding error of the binary representation is
  not modelled, and the two zeros are not told apart.
\<close>

datatype float64 = Fin real | PInf | NInf | NaN

datatype error = ZeroDivisionError | KeyError string | ValueError | IndexError

fun fneg :: "float64 \<Rightarrow> float64" where
  "fneg (Fin x) = Fin (- x)"
| "fneg PInf = NInf"
| "fneg NInf = PInf"
| "fneg NaN = NaN"

fun fadd :: "float64 \<Rightarrow> float64 \<Rightarrow> float64" where
  "fadd (Fin x) (Fin y) = Fin (x + y)"
| "fadd NaN b = NaN"
| "fadd a NaN = NaN"
| "fadd PInf NInf = NaN"
| "fadd NInf PInf = NaN"
| "fadd PInf b = PInf"
| "fadd NInf b = NInf"
| "fadd a PInf = PInf"
| "fadd a NInf = NInf"

definition fsub :: "float64 \<Rightarrow> float64 \<Rightarrow> float64" where
  "fsub a b = fadd a (fneg b)"

fun fmul :: "float64 \<Rightarrow> float64 \<Rightarrow> float64" where
  "fmul (Fin x) (Fin y) = Fin (x * y)"
| "fmul NaN b = NaN"
| "fmul a NaN = NaN"
| "fmul PInf (Fin y) = (if y = 0 then NaN else if 0 < y then PInf else NInf)"
| "fmul NInf (Fin y) = (if y = 0 then NaN else if 0 < y then NInf else PInf)"
| "fmul (Fin x) PInf = (if x = 0 then NaN else if 0 < x then PInf else NInf)"
| "fmul (Fin x) NInf = (if x = 0 then NaN else if 0 < x then NInf else PInf)"
| "fmul PInf PInf = PInf"
| "fmul PInf NInf = NInf"
| "fmul NInf PInf = NInf"
| "fmul NInf NInf = PInf"

text \<open>
  Division as numpy does it: a zero divisor gives an infinity, or not-a-number for \<open>0 / 0\<close>,
  and nothing is raised.
\<close>

fun fdiv :: "float64 \<Rightarrow> float64 \<Rightarrow> float64" where
  "fdiv (Fin x) (Fin y) =
     (if y = 0 then (if x = 0 then NaN else if 0 < x then PInf else NInf) else Fin (x / y))"
| "fdiv NaN b = NaN"
| "fdiv a NaN = NaN"
| "fdiv (Fin x) PInf = Fin 0"
| "fdiv (Fin x) NInf = Fin 0"
| "fdiv PInf (Fin y) = (if y < 0 then NInf else PInf)"
| "fdiv NInf (Fin y) = (if y < 0 then PInf else NInf)"
| "fdiv PInf b = NaN"
| "fdiv NInf b = NaN"

text \<open>
  Division of two Python floats: \<open>a / b\<close> raises \<open>ZeroDivisionError\<close> when \<open>b\<close> is zero,
  whatever \<open>a\<close> is.
\<close>

definition py_truediv :: "float64 \<Rightarrow> float64 \<Rightarrow> error + float64" where
  "py_truediv a b = (if b = Fin 0 then Inl ZeroDivisionError else Inr (fdiv a b))"

text \<open>Comparisons: any comparison with not-a-number is false.\<close>

fun flt :: "float64 \<Rightarrow> float64 \<Rightarrow> bool" where
  "flt (Fin x) (Fin y) = (x < y)"
| "flt NaN b = False"
| "flt a NaN = False"
| "flt PInf b = False"
| "flt a NInf = False"
| "flt NInf b = True"
| "flt a PInf = True"

fun fle :: "float64 \<Rightarrow> float64 \<Rightarrow> bool" where
  "fle (Fin x) (Fin y) = (x \<le> y)"
| "fle NaN b = False"
| "fle a NaN = False"
| "fle NInf b = True"
| "fle a PInf = True"
| "fle PInf b = False"
| "fle a NInf = False"

definition fgt :: "float64 \<Rightarrow> float64 \<Rightarrow> bool" where
  "fgt a b = flt b a"

definition fge :: "float64 \<Rightarrow> float64 \<Rightarrow> bool" where
  "fge a b = fle b a"

fun fabs :: "float64 \<Rightarrow> float64" where
  "fabs (Fin x) = Fin \<bar>x\<bar>"
| "fabs PInf = PInf"
| "fabs NInf = PInf"
| "fabs NaN = NaN"

text \<open>
  Python's two-argument \<open>min(a, b)\<close> and \<open>max(a, b)\<close> keep the first argument unless the
  second one compares strictly smaller (larger).
\<close>

definition pymin :: "float64 \<Rightarrow> float64 \<Rightarrow> float64" where
  "pymin a b = (if flt b a then b else a)"

definition pymax :: "float64 \<Rightarrow> float64 \<Rightarrow> float64" where
  "pymax a b = (if fgt b a then b else a)"

text \<open>
  \<open>round(x, 1)\<close>: the nearest multiple of one tenth, a tie going to the even one; the
  special values are returned as they are.
\<close>

definition round_half_even :: "real \<Rightarrow> int" where
  "round_half_even y =
     (let f = \<lfloor>y\<rfloor>; d = y - of_int f
      in if d < 1 / 2 then f else if 1 / 2 < d then f + 1 else if even f then f else f + 1)"

definition round1 :: "real \<Rightarrow> real" where
  "round1 x = of_int (round_half_even (x * 10)) / 10"

fun fround1 :: "float64 \<Rightarrow> float64" where
  "fround1 (Fin x) = Fin (round1 x)"
| "fround1 PInf = PInf"
| "fround1 NInf = NInf"
| "fround1 NaN = NaN"

type_synonym datetime = int

section \<open>Funding rate analysis (analysis/funding.py)\<close>

text \<open>
  The description of a signal is an f-string over the inputs; the model keeps which of the
  texts was chosen and the value formatted into it, not the rendered characters.
\<close>

datatype funding_description =
    ExtremeNegativeFunding float64
  | HighNegativeFunding float64
  | ExtremePositiveFunding float64
  | HighPositiveFunding float64
  | ModeratePositiveFunding float64
  | ModerateNegativeFunding float64
  | NeutralFunding float64

record FundingSignal =
  fs_symbol :: string
  funding_rate :: float64
  funding_rate_raw :: float64
  next_funding_time :: "datetime option"
  fs_signal :: string
  intensity :: string
  fs_description :: funding_description
  fs_score :: float64

definition mk_funding_signal ::
  "string \<Rightarrow> float64 \<Rightarrow> datetime option \<Rightarrow> string \<Rightarrow> string \<Rightarrow> funding_description
     \<Rightarrow> float64 \<Rightarrow> FundingSignal" where
  "mk_funding_signal symb rate nft sig inten descr score =
     \<lparr> fs_symbol = symb, funding_rate = rate, funding_rate_raw = fdiv rate (Fin 100),
       next_funding_time = nft, fs_signal = sig, intensity = inten,
       fs_description = descr, fs_score = fround1 score \<rparr>"

definition analyze_funding_rate ::
  "string \<Rightarrow> float64 \<Rightarrow> datetime option \<Rightarrow> float64 \<Rightarrow> float64 \<Rightarrow> float64 \<Rightarrow> float64
     \<Rightarrow> error + FundingSignal" where
  "analyze_funding_rate symb rate nft extreme_positive_threshold extreme_negative_threshold
       high_positive_threshold high_negative_threshold =
     (if fle rate extreme_negative_threshold then
        (case py_truediv (fabs rate) (fabs extreme_negative_threshold) of
           Inl e \<Rightarrow> Inl e
         | Inr q \<Rightarrow> Inr (mk_funding_signal symb rate nft ''long'' ''extreme''
                          (ExtremeNegativeFunding rate) (pymin (fmul q (Fin 5)) (Fin 10))))
      else if fle rate high_negative_threshold then
        (case py_truediv (fabs rate) (fabs extreme_negative_threshold) of
           Inl e \<Rightarrow> Inl e
         | Inr q \<Rightarrow> Inr (mk_funding_signal symb rate nft ''long'' ''high''
                          (HighNegativeFunding rate) (pymin (fmul q (Fin 4)) (Fin 7))))
      else if fge rate extreme_positive_threshold then
        (case py_truediv rate extreme_positive_threshold of
           Inl e \<Rightarrow> Inl e
         | Inr q \<Rightarrow> Inr (mk_funding_signal symb rate nft ''short'' ''extreme''
                          (ExtremePositiveFunding rate) (pymin (fmul q (Fin 5)) (Fin 10))))
      else if fge rate high_positive_threshold then
        (case py_truediv rate extreme_positive_threshold of
           Inl e \<Rightarrow> Inl e
         | Inr q \<Rightarrow> Inr (mk_funding_signal symb rate nft ''short'' ''high''
                          (HighPositiveFunding rate) (pymin (fmul q (Fin 4)) (Fin 7))))
      else if fgt rate (Fin (1 / 100)) then
        Inr (mk_funding_signal symb rate nft ''short'' ''moderate''
               (ModeratePositiveFunding rate) (Fin 2))
      else if flt rate (Fin (- (1 / 100))) then
        Inr (mk_funding_signal symb rate nft ''long'' ''moderate''
               (ModerateNegativeFunding rate) (Fin 2))
      else
        Inr (mk_funding_signal symb rate nft ''neutral'' ''low'' (NeutralFunding rate) (Fin 0)))"

text \<open>The function with the default thresholds of its signature.\<close>

definition analyze_funding_rate_default :: "string \<Rightarrow> float64 \<Rightarrow> error + FundingSignal" where
  "analyze_funding_rate_default symb rate =
     analyze_funding_rate symb rate None (Fin (1 / 10)) (Fin (- (1 / 10))) (Fin (5 / 100))
       (Fin (- (5 / 100)))"


section \<open>Liquidation analysis (analysis/liquidation.py)\<close>

datatype liquidation_description =
    LowLiquidationActivity float64 float64
  | LargeLongLiquidations float64
  | LargeShortLiquidations float64
  | BalancedLiquidations float64 float64
  | NoSignificantLiquidations

record LiquidationSignal =
  ls_symbol :: string
  total_long_liquidations_usd :: float64
  total_short_liquidations_usd :: float64
  net_liquidations_usd :: float64
  ls_signal :: string
  ls_description :: liquidation_description
  ls_score :: float64





section \<open>Technical indicators (analysis/technical.py)\<close>

text \<open>
  A DataFrame of candles is the list of its rows, oldest first; a column is the list of one
  field. The candle values are finite. A pandas Series is a list of floats.
\<close>

record Bar =
  timestamp :: int
  open_price :: real
  high :: real
  low :: real
  close :: real
  volume :: real

type_synonym DataFrame = "Bar list"

definition ebind :: "error + 'a \<Rightarrow> ('a \<Rightarrow> error + 'b) \<Rightarrow> error + 'b" where
  "ebind m f = (case m of Inl e \<Rightarrow> Inl e | Inr x \<Rightarrow> f x)"

text \<open>\<open>series.iloc[-1]\<close>: the last element, \<open>IndexError\<close> on an empty series.\<close>

definition iloc_last :: "'a list \<Rightarrow> error + 'a" where
  "iloc_last xs = (if xs = [] then Inl IndexError else Inr (last xs))"

text \<open>\<open>series.iloc[-2]\<close>: the element before the last one.\<close>

definition iloc_prev :: "'a list \<Rightarrow> error + 'a" where
  "iloc_prev xs = (if length xs < 2 then Inl IndexError else Inr (xs ! (length xs - 2)))"

subsection \<open>pandas operations\<close>

text \<open>\<open>Series.diff()\<close>: the first element has no predecessor and becomes not-a-number.\<close>

definition diff :: "real list \<Rightarrow> float64 list" where
  "diff xs = (case xs of [] \<Rightarrow> [] | x # rest \<Rightarrow> NaN # map2 (\<lambda>a b. Fin (b - a)) xs rest)"

text \<open>\<open>Series.where(cond, other)\<close>: keeps an element where the condition holds.\<close>

definition series_where :: "(float64 \<Rightarrow> bool) \<Rightarrow> float64 \<Rightarrow> float64 list \<Rightarrow> float64 list" where
  "series_where cond other xs = map (\<lambda>d. if cond d then d else other) xs"

text \<open>
  \<open>Series.rolling(window=w).mean()\<close>: at position \<open>i\<close> the mean of the \<open>w\<close> elements ending
  there; not-a-number while fewer than \<open>w\<close> elements are available, and for an empty window.
  A negative window is refused with \<open>ValueError\<close>.
\<close>

definition window_at :: "nat \<Rightarrow> nat \<Rightarrow> 'a list \<Rightarrow> 'a list" where
  "window_at w i xs = take w (drop (i + 1 - w) xs)"

definition rolling_mean :: "int \<Rightarrow> float64 list \<Rightarrow> error + float64 list" where
  "rolling_mean window xs =
     (if window < 0 then Inl ValueError
      else Inr (map (\<lambda>i. if window = 0 \<or> int i + 1 < window then NaN
                          else fdiv (foldl fadd (Fin 0) (window_at (nat window) i xs))
                                 (Fin (of_int window)))
                  [0..<length xs]))"

text \<open>
  \<open>Series.ewm(span=s, adjust=False).mean()\<close>: exponential smoothing with factor
  \<open>2 / (s + 1)\<close>, started at the first element; a span below 1 is refused with \<open>ValueError\<close>.
\<close>

fun ewm_from :: "real \<Rightarrow> real \<Rightarrow> real list \<Rightarrow> real list" where
  "ewm_from alpha prev [] = []"
| "ewm_from alpha prev (x # xs) =
     (let y = (1 - alpha) * prev + alpha * x in y # ewm_from alpha y xs)"

definition ewm_mean :: "int \<Rightarrow> real list \<Rightarrow> error + real list" where
  "ewm_mean span_n xs =
     (if span_n < 1 then Inl ValueError
      else Inr (case xs of [] \<Rightarrow> [] | x # rest \<Rightarrow> x # ewm_from (2 / (of_int span_n + 1)) x rest))"

text \<open>
  \<open>Series.tail(n)\<close>: the last \<open>n\<close> elements (all of them when there are fewer); for a negative
  \<open>n\<close>, all but the first \<open>-n\<close>.
\<close>

definition series_tail :: "int \<Rightarrow> 'a list \<Rightarrow> 'a list" where
  "series_tail n xs = (if 0 \<le> n then drop (length xs - nat n) xs else drop (nat (- n)) xs)"

text \<open>\<open>Series.mean()\<close>: not-a-number for an empty series.\<close>

definition series_mean :: "real list \<Rightarrow> float64" where
  "series_mean xs = (if xs = [] then NaN else Fin (sum_list xs / real (length xs)))"

subsection \<open>Indicators\<close>

text \<open>
  The two rolling averages of \<open>calculate_rsi\<close>: \<open>gain\<close> and \<open>loss\<close>. The negation in
  \<open>-delta.where(delta < 0, 0)\<close> applies to the result of \<open>where\<close>.
\<close>

definition rsi_gain :: "DataFrame \<Rightarrow> int \<Rightarrow> error + float64 list" where
  "rsi_gain df period =
     (let delta = diff (map close df)
      in rolling_mean period (series_where (\<lambda>d. fgt d (Fin 0)) (Fin 0) delta))"

definition rsi_loss :: "DataFrame \<Rightarrow> int \<Rightarrow> error + float64 list" where
  "rsi_loss df period =
     (let delta = diff (map close df)
      in rolling_mean period (map fneg (series_where (\<lambda>d. flt d (Fin 0)) (Fin 0) delta)))"

definition calculate_rsi :: "DataFrame \<Rightarrow> int \<Rightarrow> error + float64 list" where
  "calculate_rsi df period =
     ebind (rsi_gain df period) (\<lambda>gain.
     ebind (rsi_loss df period) (\<lambda>loss.
       (let rs = map2 fdiv gain loss
        in Inr (map (\<lambda>r. fsub (Fin 100) (fdiv (Fin 100) (fadd (Fin 1) r))) rs))))"

definition calculate_ema :: "DataFrame \<Rightarrow> int \<Rightarrow> error + real list" where
  "calculate_ema df period = ewm_mean period (map close df)"

definition calculate_macd ::
  "DataFrame \<Rightarrow> int \<Rightarrow> int \<Rightarrow> int \<Rightarrow> error + (real list \<times> real list \<times> real list)" where
  "calculate_macd df fast slow signal =
     ebind (ewm_mean fast (map close df)) (\<lambda>ema_fast.
     ebind (ewm_mean slow (map close df)) (\<lambda>ema_slow.
       (let macd_line = map2 (\<lambda>a b. a - b) ema_fast ema_slow
        in ebind (ewm_mean signal macd_line) (\<lambda>signal_line.
             Inr (macd_line, signal_line, map2 (\<lambda>a b. a - b) macd_line signal_line)))))"

definition calculate_volume_ratio :: "DataFrame \<Rightarrow> int \<Rightarrow> error + float64" where
  "calculate_volume_ratio df period =
     (let avg_volume = series_mean (series_tail period (map volume df))
      in ebind (iloc_last (map volume df)) (\<lambda>current_volume.
           if fgt avg_volume (Fin 0) then Inr (fdiv (Fin current_volume) avg_volume)
           else Inr (Fin 1)))"

definition detect_macd_crossover :: "float64 list \<Rightarrow> float64 list \<Rightarrow> string" where
  "detect_macd_crossover macd signal =
     (if length macd < 2 \<or> length signal < 2 then ''none''
      else
        (let prev_diff = fsub (macd ! (length macd - 2)) (signal ! (length signal - 2));
             curr_diff = fsub (last macd) (last signal)
         in if flt prev_diff (Fin 0) \<and> fgt curr_diff (Fin 0) then ''bullish''
            else if fgt prev_diff (Fin 0) \<and> flt curr_diff (Fin 0) then ''bearish''
            else ''none''))"

definition detect_ema_crossover :: "float64 list \<Rightarrow> float64 list \<Rightarrow> string" where
  "detect_ema_crossover ema_short ema_long =
     (if length ema_short < 2 \<or> length ema_long < 2 then ''none''
      else
        (let prev_diff = fsub (ema_short ! (length ema_short - 2))
                           (ema_long ! (length ema_long - 2));
             curr_diff = fsub (last ema_short) (last ema_long)
         in if flt prev_diff (Fin 0) \<and> fgt curr_diff (Fin 0) then ''bullish''
            else if fgt prev_diff (Fin 0) \<and> flt curr_diff (Fin 0) then ''bearish''
            else ''none''))"

subsection \<open>Bias\<close>

text \<open>
  \<open>calculate_bias\<close> accumulates a long and a short score and then decides. The model names the
  accumulation \<open>bias_scores\<close>: the pair \<open>(long_score, short_score)\<close> as it stands when the
  source reaches its comment "Determine bias". The function receives the \<open>numpy.float64\<close>
  values read from the Series, so its divisions follow numpy and raise nothing.
\<close>

definition bias_scores ::
  "string \<Rightarrow> float64 \<Rightarrow> string \<Rightarrow> float64 \<Rightarrow> string \<Rightarrow> float64 \<Rightarrow> bool \<Rightarrow> float64 \<Rightarrow> float64
     \<Rightarrow> float64 \<times> float64" where
  "bias_scores rsi_signal current_rsi macd_crossover current_histogram ema_crossover
       price_vs_ema volume_spike rsi_oversold rsi_overbought =
     (let long0 = Fin 0; short0 = Fin 0;
          (long1, short1) =
            (if rsi_signal = ''oversold'' then
               (let rsi_intensity = fdiv (fsub rsi_oversold current_rsi) rsi_oversold
                in (fadd long0 (fadd (Fin 2) (pymin rsi_intensity (Fin 1))), short0))
             else if rsi_signal = ''overbought'' then
               (let rsi_intensity =
                      fdiv (fsub current_rsi rsi_overbought) (fsub (Fin 100) rsi_overbought)
                in (long0, fadd short0 (fadd (Fin 2) (pymin rsi_intensity (Fin 1)))))
             else (long0, short0));
          (long2, short2) =
            (if macd_crossover = ''bullish'' then (fadd long1 (Fin (5 / 2)), short1)
             else if macd_crossover = ''bearish'' then (long1, fadd short1 (Fin (5 / 2)))
             else if fgt current_histogram (Fin 0) then (fadd long1 (Fin (1 / 2)), short1)
             else if flt current_histogram (Fin 0) then (long1, fadd short1 (Fin (1 / 2)))
             else (long1, short1));
          (long3, short3) =
            (if ema_crossover = ''bullish'' then (fadd long2 (Fin 2), short2)
             else if ema_crossover = ''bearish'' then (long2, fadd short2 (Fin 2))
             else (long2, short2));
          (long4, short4) =
            (if fgt price_vs_ema (Fin 2) then
               (fadd long3 (pymin (fdiv price_vs_ema (Fin 4)) (Fin (3 / 2))), short3)
             else if flt price_vs_ema (Fin (- 2)) then
               (long3, fadd short3 (pymin (fdiv (fabs price_vs_ema) (Fin 4)) (Fin (3 / 2))))
             else (long3, short3))
      in if volume_spike then
           (if fgt long4 short4 then (fadd long4 (Fin 1), short4)
            else if fgt short4 long4 then (long4, fadd short4 (Fin 1))
            else (long4, short4))
         else (long4, short4))"

definition calculate_bias ::
  "string \<Rightarrow> float64 \<Rightarrow> string \<Rightarrow> float64 \<Rightarrow> string \<Rightarrow> float64 \<Rightarrow> bool \<Rightarrow> float64 \<Rightarrow> float64
     \<Rightarrow> string \<times> float64" where
  "calculate_bias rsi_signal current_rsi macd_crossover current_histogram ema_crossover
       price_vs_ema volume_spike rsi_oversold rsi_overbought =
     (let (long_score, short_score) =
            bias_scores rsi_signal current_rsi macd_crossover current_histogram ema_crossover
              price_vs_ema volume_spike rsi_oversold rsi_overbought
      in if fgt long_score (fadd short_score (Fin 1)) then
           (''long'', fround1 (pymin long_score (Fin 10)))
         else if fgt short_score (fadd long_score (Fin 1)) then
           (''short'', fround1 (pymin short_score (Fin 10)))
         else (''neutral'', fround1 (Fin 0)))"

subsection \<open>The entry point\<close>

record TechnicalSignal =
  ts_symbol :: string
  ts_timeframe :: string
  ts_rsi :: float64
  ts_rsi_signal :: string
  ts_macd :: float64
  ts_macd_signal :: float64
  ts_macd_histogram :: float64
  ts_macd_crossover :: string
  ts_ema_short :: float64
  ts_ema_long :: float64
  ts_ema_crossover :: string
  ts_price_vs_ema :: float64
  ts_volume_ratio :: float64
  ts_volume_spike :: bool
  ts_current_price :: float64
  ts_price_change_percent :: float64
  ts_bias :: string
  ts_strength :: float64

text \<open>
  The body of the \<open>try\<close> block of \<open>analyze_technicals\<close>: it returns \<open>None\<close> for a series that
  is too short, a signal otherwise, or raises. The indicators are called with their default
  periods (RSI 14, MACD 12/26/9, volume 20), as the source calls them.
\<close>

definition analyze_technicals_body ::
  "DataFrame \<Rightarrow> string \<Rightarrow> string \<Rightarrow> float64 \<Rightarrow> float64 \<Rightarrow> int \<Rightarrow> int \<Rightarrow> float64
     \<Rightarrow> error + TechnicalSignal option" where
  "analyze_technicals_body df symb timeframe rsi_oversold rsi_overbought ema_short_period
       ema_long_period volume_spike_threshold =
     (if int (length df) < max ema_long_period 26 + 10 then Inr None
      else
        ebind (calculate_rsi df 14) (\<lambda>rsi.
        ebind (calculate_macd df 12 26 9) (\<lambda>(macd_line, signal_line, histogram).
        ebind (calculate_ema df ema_short_period) (\<lambda>ema_short.
        ebind (calculate_ema df ema_long_period) (\<lambda>ema_long.
        ebind (calculate_volume_ratio df 20) (\<lambda>volume_ratio.
        ebind (iloc_last rsi) (\<lambda>current_rsi.
        ebind (iloc_last macd_line) (\<lambda>current_macd.
        ebind (iloc_last signal_line) (\<lambda>current_signal.
        ebind (iloc_last histogram) (\<lambda>current_histogram.
        ebind (iloc_last ema_short) (\<lambda>current_ema_short.
        ebind (iloc_last ema_long) (\<lambda>current_ema_long.
        ebind (iloc_last (map close df)) (\<lambda>current_price.
        ebind (if 2 \<le> length df then
                 ebind (iloc_prev (map close df)) (\<lambda>prev_price.
                   Inr (fmul (fdiv (fsub (Fin current_price) (Fin prev_price)) (Fin prev_price))
                          (Fin 100)))
               else Inr (Fin 0)) (\<lambda>price_change.
          (let rsi_signal =
                 (if fle current_rsi rsi_oversold then ''oversold''
                  else if fge current_rsi rsi_overbought then ''overbought''
                  else ''neutral'');
               macd_crossover = detect_macd_crossover (map Fin macd_line) (map Fin signal_line);
               ema_crossover = detect_ema_crossover (map Fin ema_short) (map Fin ema_long);
               price_vs_ema =
                 fmul (fdiv (fsub (Fin current_price) (Fin current_ema_long))
                         (Fin current_ema_long)) (Fin 100);
               volume_spike = fge volume_ratio volume_spike_threshold;
               (bias, strength) =
                 calculate_bias rsi_signal current_rsi macd_crossover (Fin current_histogram)
                   ema_crossover price_vs_ema volume_spike rsi_oversold rsi_overbought
           in Inr (Some
                \<lparr> ts_symbol = symb, ts_timeframe = timeframe,
                  ts_rsi = current_rsi, ts_rsi_signal = rsi_signal,
                  ts_macd = Fin current_macd, ts_macd_signal = Fin current_signal,
                  ts_macd_histogram = Fin current_histogram,
                  ts_macd_crossover = macd_crossover,
                  ts_ema_short = Fin current_ema_short, ts_ema_long = Fin current_ema_long,
                  ts_ema_crossover = ema_crossover, ts_price_vs_ema = price_vs_ema,
                  ts_volume_ratio = volume_ratio, ts_volume_spike = volume_spike,
                  ts_current_price = Fin current_price,
                  ts_price_change_percent = price_change,
                  ts_bias = bias, ts_strength = strength \<rparr>))))))))))))))))"

text \<open>\<open>except Exception\<close>: whatever the body raises becomes \<open>None\<close>.\<close>

definition analyze_technicals ::
  "DataFrame \<Rightarrow> string \<Rightarrow> string \<Rightarrow> float64 \<Rightarrow> float64 \<Rightarrow> int \<Rightarrow> int \<Rightarrow> float64
     \<Rightarrow> TechnicalSignal option" where
  "analyze_technicals df symb timeframe rsi_oversold rsi_overbought ema_short_period
       ema_long_period volume_spike_threshold =
     (case analyze_technicals_body df symb timeframe rsi_oversold rsi_overbought
             ema_short_period ema_long_period volume_spike_threshold of
        Inl e \<Rightarrow> None
      | Inr r \<Rightarrow> r)"

section \<open>Signal aggregation (analysis/signals.py)\<close>

datatype SignalType = LONG | SHORT | NEUTRAL

datatype SignalStrength = WEAK | MODERATE | STRONG | VERY_STRONG

text \<open>
  A reason is an f-string; the model keeps which text it is and the values formatted into it.
\<close>

datatype reason =
    TechnicalReason string float64 string
  | FundingNegativeReason string float64
  | FundingPositiveReason string float64
  | LongCascadeReason float64
  | ShortSqueezeReason float64
  | StrongConfluence
  | GoodConfluence

text \<open>
  The aggregated signal. The field \<open>timestamp\<close> of the source holds the wall-clock time of
  the call and is left out.
\<close>

record AggregatedSignal =
  ag_symbol :: string
  signal_type :: SignalType
  ag_strength :: SignalStrength
  total_score :: float64
  technical_signal :: "TechnicalSignal option"
  funding_signal :: "FundingSignal option"
  liquidation_signal :: "LiquidationSignal option"
  technical_score :: float64
  funding_score :: float64
  liquidation_score :: float64
  confluence_count :: nat
  confluence_bonus :: float64
  ag_timeframe :: string
  reasons :: "reason list"

definition calculate_signal_strength :: "float64 \<Rightarrow> SignalStrength" where
  "calculate_signal_strength score =
     (if fge score (Fin (85 / 10)) then VERY_STRONG
      else if fge score (Fin 7) then STRONG
      else if fge score (Fin 5) then MODERATE
      else WEAK)"




text \<open>
  The local variables of \<open>aggregate_signals\<close> that the three lenses update in turn.
\<close>

record agg_state =
  long_score :: float64
  short_score :: float64
  technical_contribution :: float64
  funding_contribution :: float64
  liquidation_contribution :: float64
  st_reasons :: "reason list"
  signals_agreeing_long :: nat
  signals_agreeing_short :: nat









text \<open>
  \<open>filter_signals\<close>: the loop that collects the list \<open>filtered\<close>. A type list that is \<open>None\<close> or
  empty is falsy, and then no signal is dropped for its type.
\<close>

fun filter_loop ::
  "float64 \<Rightarrow> SignalType list option \<Rightarrow> AggregatedSignal list \<Rightarrow> AggregatedSignal list
     \<Rightarrow> AggregatedSignal list" where
  "filter_loop min_score signal_types [] filtered = filtered"
| "filter_loop min_score signal_types (s # rest) filtered =
     (if signal_type s = NEUTRAL then filter_loop min_score signal_types rest filtered
      else if flt (total_score s) min_score then
        filter_loop min_score signal_types rest filtered
      else if (case signal_types of None \<Rightarrow> False
               | Some ts \<Rightarrow> if ts = [] then False else signal_type s \<notin> set ts) then
        filter_loop min_score signal_types rest filtered
      else filter_loop min_score signal_types rest (filtered @ [s]))"

text \<open>
  \<open>sorted(filtered, key=lambda x: x.total_score, reverse=True)\<close>: a stable sort in descending
  order of the key (signals of equal score keep their order). Python compares the keys with
  \<open><\<close> alone; the model is the stable insertion sort with that comparison, which yields the
  list Python yields whenever no key is not-a-number.
\<close>

fun insort_desc :: "AggregatedSignal \<Rightarrow> AggregatedSignal list \<Rightarrow> AggregatedSignal list" where
  "insort_desc x [] = [x]"
| "insort_desc x (y # ys) =
     (if flt (total_score x) (total_score y) then y # insort_desc x ys else x # y # ys)"

definition sorted_desc :: "AggregatedSignal list \<Rightarrow> AggregatedSignal list" where
  "sorted_desc xs = foldr insort_desc xs []"

definition filter_signals ::
  "AggregatedSignal list \<Rightarrow> float64 \<Rightarrow> SignalType list option \<Rightarrow> AggregatedSignal list" where
  "filter_signals signals min_score signal_types =
     sorted_desc (filter_loop min_score signal_types signals [])"

section \<open>Inputs used in the examples\<close>

text \<open>A candle whose prices all equal \<open>p\<close>, with volume \<open>v\<close>.\<close>

definition flat_bar :: "real \<Rightarrow> real \<Rightarrow> Bar" where
  "flat_bar p v = \<lparr> timestamp = 0, open_price = p, high = p, low = p, close = p, volume = v \<rparr>"




text \<open>An aggregated signal with the given symbol, type and total score.\<close>

definition aggregated_example :: "string \<Rightarrow> SignalType \<Rightarrow> float64 \<Rightarrow> AggregatedSignal" where
  "aggregated_example symb ty score =
     \<lparr> ag_symbol = symb, signal_type = ty, ag_strength = calculate_signal_strength score,
       total_score = score, technical_signal = None, funding_signal = None,
       liquidation_signal = None, technical_score = Fin 0, funding_score = Fin 0,
       liquidation_score = Fin 0, confluence_count = 0, confluence_bonus = Fin 0,
       ag_timeframe = ''1h'', reasons = [] \<rparr>"

section \<open>Notions used in the statements\<close>

text \<open>
  What \<open>filter_signals\<close> keeps: a signal that is not neutral, whose score is not below the
  minimum, and whose type is in the type list when a non-empty list is given.
\<close>

definition survives :: "float64 \<Rightarrow> SignalType list option \<Rightarrow> AggregatedSignal \<Rightarrow> bool" where
  "survives min_score signal_types s =
     (signal_type s \<noteq> NEUTRAL \<and> \<not> flt (total_score s) min_score
      \<and> (case signal_types of None \<Rightarrow> True | Some ts \<Rightarrow> ts = [] \<or> signal_type s \<in> set ts))"


text \<open>
  The positive and the negative part of the price changes, as real numbers: the change at the
  first bar counts as 0 on both sides.
\<close>

definition price_gains :: "real list \<Rightarrow> real list" where
  "price_gains xs = (case xs of [] \<Rightarrow> [] | x # rest \<Rightarrow> 0 # map2 (\<lambda>a b. max (b - a) 0) xs rest)"

definition price_losses :: "real list \<Rightarrow> real list" where
  "price_losses xs = (case xs of [] \<Rightarrow> [] | x # rest \<Rightarrow> 0 # map2 (\<lambda>a b. max (a - b) 0) xs rest)"

text \<open>The average gain and loss over the \<open>w\<close> bars that end at position \<open>i\<close>.\<close>

definition avg_gain :: "DataFrame \<Rightarrow> nat \<Rightarrow> nat \<Rightarrow> real" where
  "avg_gain df w i = sum_list (window_at w i (price_gains (map close df))) / real w"

definition avg_loss :: "DataFrame \<Rightarrow> nat \<Rightarrow> nat \<Rightarrow> real" where
  "avg_loss df w i = sum_list (window_at w i (price_losses (map close df))) / real w"

section \<open>Properties\<close>

lemmas float_defs =
  py_truediv_def pymin_def pymax_def fge_def fgt_def fsub_def round1_def round_half_even_def
  Let_def

subsection \<open>Funding rate classifier\<close>

text \<open>
  C1, at the input where the claim fails. With the extreme negative threshold \<open>-0.1\<close> and the
  default remaining thresholds, the rate \<open>0.03\<close> lies above \<open>0.01\<close> and below the high positive
  threshold \<open>0.05\<close>: the classifier answers by its rule for a moderate positive rate, so the
  signal is not \<open>neutral\<close> and the score is not 0.
\<close>

theorem analyze_funding_rate_moderate_counterexample:
  "fs_signal (projr (analyze_funding_rate ''BTCUSDT'' (Fin (3 / 100)) None (Fin (1 / 10))
      (Fin (- (1 / 10))) (Fin (5 / 100)) (Fin (- (5 / 100))))) \<noteq> ''neutral''
   \<and> fs_score (projr (analyze_funding_rate ''BTCUSDT'' (Fin (3 / 100)) None (Fin (1 / 10))
      (Fin (- (1 / 10))) (Fin (5 / 100)) (Fin (- (5 / 100))))) \<noteq> Fin 0"
  by (simp add: analyze_funding_rate_def mk_funding_signal_def float_defs)

text \<open>
  C1, as amended. With the extreme negative threshold \<open>-0.1\<close> and the default remaining
  thresholds, the rate \<open>-0.1\<close> yields signal \<open>long\<close>, intensity \<open>extreme\<close> and score 5.0; the
  rate \<open>-0.2\<close> yields the capped score 10.0; and the rate \<open>0.03\<close> yields signal \<open>short\<close>,
  intensity \<open>moderate\<close> and score 2.
\<close>

theorem analyze_funding_rate_examples:
  "(\<exists>s. analyze_funding_rate symb (Fin (- (1 / 10))) nft (Fin (1 / 10)) (Fin (- (1 / 10)))
           (Fin (5 / 100)) (Fin (- (5 / 100))) = Inr s
        \<and> fs_signal s = ''long'' \<and> intensity s = ''extreme'' \<and> fs_score s = Fin 5)
   \<and> (\<exists>s. analyze_funding_rate symb (Fin (- (2 / 10))) nft (Fin (1 / 10)) (Fin (- (1 / 10)))
           (Fin (5 / 100)) (Fin (- (5 / 100))) = Inr s
        \<and> fs_signal s = ''long'' \<and> intensity s = ''extreme'' \<and> fs_score s = Fin 10)
   \<and> (\<exists>s. analyze_funding_rate symb (Fin (3 / 100)) nft (Fin (1 / 10)) (Fin (- (1 / 10)))
           (Fin (5 / 100)) (Fin (- (5 / 100))) = Inr s
        \<and> fs_signal s = ''short'' \<and> intensity s = ''moderate'' \<and> fs_score s = Fin 2)"
  by (simp add: analyze_funding_rate_def mk_funding_signal_def float_defs)

subsection \<open>Liquidation classifier\<close>





subsection \<open>Technical bias classifier\<close>

text \<open>
  C2, at the input where the claim fails. RSI 25 with the oversold threshold 30, no crossover,
  histogram 1, price at the long EMA and no volume spike: the positive histogram adds 0.5 to
  the long score, which is \<open>8/3\<close> and not \<open>2 + 1/6\<close>, and the strength is 2.7 and not 2.2.
\<close>

theorem calculate_bias_histogram_counterexample:
  "fst (bias_scores ''oversold'' (Fin 25) ''none'' (Fin 1) ''none'' (Fin 0) False (Fin 30)
          (Fin 70)) \<noteq> Fin (2 + 1 / 6)
   \<and> snd (calculate_bias ''oversold'' (Fin 25) ''none'' (Fin 1) ''none'' (Fin 0) False (Fin 30)
          (Fin 70)) \<noteq> Fin (22 / 10)"
  by (simp add: calculate_bias_def bias_scores_def float_defs)

text \<open>
  C2, as amended. RSI 25 with the oversold threshold 30, no MACD crossover and no EMA
  crossover, a positive MACD histogram, \<open>price_vs_ema = 0\<close> and no volume spike produce
  \<open>long_score = 2 + min((30 - 25)/30, 1) + 0.5 = 8/3\<close> and \<open>short_score = 0\<close>, and the classifier
  returns bias \<open>long\<close> with strength 2.7.
\<close>

theorem calculate_bias_oversold_example:
  assumes "0 < h"
  shows "bias_scores ''oversold'' (Fin 25) ''none'' (Fin h) ''none'' (Fin 0) False (Fin 30)
           (Fin 70) = (Fin (2 + min ((30 - 25) / 30) 1 + 1 / 2), Fin 0)
       \<and> calculate_bias ''oversold'' (Fin 25) ''none'' (Fin h) ''none'' (Fin 0) False (Fin 30)
           (Fin 70) = (''long'', Fin (27 / 10))"
  using assms by (simp add: calculate_bias_def bias_scores_def float_defs)

theorem calculate_bias_oversold_example_witness:
  "(0::real) < 1 / 2
   \<and> bias_scores ''oversold'' (Fin 25) ''none'' (Fin (1 / 2)) ''none'' (Fin 0) False (Fin 30)
       (Fin 70) = (Fin (8 / 3), Fin 0)
   \<and> calculate_bias ''oversold'' (Fin 25) ''none'' (Fin (1 / 2)) ''none'' (Fin 0) False (Fin 30)
       (Fin 70) = (''long'', Fin (27 / 10))"
  using calculate_bias_oversold_example [of "1 / 2"] by simp

text \<open>Facts about the comparisons that the decisions below rest on.\<close>

lemma flt_asym: "flt a b \<Longrightarrow> \<not> flt b a"
  by (cases a; cases b) auto

lemma flt_irrefl: "\<not> flt a a"
  by (cases a) auto





subsection \<open>Crossover detectors\<close>

text \<open>
  C10. Both crossover detectors compare the two differences strictly with 0: when either series
  has fewer than 2 elements the result is \<open>none\<close>; when the difference at the second-to-last
  bar or at the last bar is exactly 0 the result is \<open>none\<close>; and on longer series the result is
  \<open>bullish\<close> exactly when the difference was below 0 and is now above 0, \<open>bearish\<close> exactly when
  it was above 0 and is now below 0. The two detectors compute the same function.
\<close>

theorem crossover_strict:
  "(length a < 2 \<or> length b < 2
      \<longrightarrow> detect_macd_crossover a b = ''none'' \<and> detect_ema_crossover a b = ''none'')
   \<and> (2 \<le> length a \<and> 2 \<le> length b
        \<and> (fsub (a ! (length a - 2)) (b ! (length b - 2)) = Fin 0
             \<or> fsub (last a) (last b) = Fin 0)
      \<longrightarrow> detect_macd_crossover a b = ''none'' \<and> detect_ema_crossover a b = ''none'')
   \<and> (2 \<le> length a \<and> 2 \<le> length b
      \<longrightarrow> (detect_macd_crossover a b = ''bullish''
             \<longleftrightarrow> flt (fsub (a ! (length a - 2)) (b ! (length b - 2))) (Fin 0)
                 \<and> fgt (fsub (last a) (last b)) (Fin 0))
        \<and> (detect_macd_crossover a b = ''bearish''
             \<longleftrightarrow> fgt (fsub (a ! (length a - 2)) (b ! (length b - 2))) (Fin 0)
                 \<and> flt (fsub (last a) (last b)) (Fin 0))
        \<and> detect_ema_crossover a b = detect_macd_crossover a b)"
  using flt_asym [of "fsub (a ! (length a - 2)) (b ! (length b - 2))" "Fin 0"]
  by (auto simp add: detect_macd_crossover_def detect_ema_crossover_def Let_def fgt_def)

text \<open>
  A difference that leaves 0 upwards, one that reaches 0 from below, and series of one element
  give \<open>none\<close>; a difference going from \<open>-1\<close> to \<open>1\<close> gives \<open>bullish\<close>.
\<close>

theorem crossover_strict_witness:
  "detect_macd_crossover [Fin 1, Fin 2] [Fin 1, Fin 1] = ''none''
   \<and> detect_ema_crossover [Fin 1, Fin 2] [Fin 1, Fin 1] = ''none''
   \<and> detect_macd_crossover [Fin (- 1), Fin 1] [Fin 0, Fin 1] = ''none''
   \<and> detect_ema_crossover [Fin (- 1), Fin 1] [Fin 0, Fin 1] = ''none''
   \<and> detect_macd_crossover [Fin 3] [Fin 1, Fin 5] = ''none''
   \<and> detect_ema_crossover [Fin (- 1), Fin 1] [Fin 0] = ''none''
   \<and> detect_macd_crossover [Fin (- 1), Fin 1] [Fin 0, Fin 0] = ''bullish''"
  using crossover_strict [of "[Fin 1, Fin 2]" "[Fin 1, Fin 1]"]
    crossover_strict [of "[Fin (- 1), Fin 1]" "[Fin 0, Fin 1]"]
    crossover_strict [of "[Fin 3]" "[Fin 1, Fin 5]"]
    crossover_strict [of "[Fin (- 1), Fin 1]" "[Fin 0]"]
    crossover_strict [of "[Fin (- 1), Fin 1]" "[Fin 0, Fin 0]"]
  by (simp add: fsub_def fgt_def)

subsection \<open>Signal aggregator\<close>














subsection \<open>Filtering\<close>

text \<open>
  The loop keeps the surviving signals in their order; the sort permutes them and puts them
  in descending order of score.
\<close>

lemma filter_loop_append:
  "filter_loop m ts xs acc = acc @ filter (survives m ts) xs"
  by (induction xs arbitrary: acc) (auto simp add: survives_def split: option.splits)

lemma mset_insort_desc: "mset (insort_desc x ys) = add_mset x (mset ys)"
  by (induction ys) auto

lemma mset_sorted_desc: "mset (sorted_desc xs) = mset xs"
  by (induction xs) (auto simp add: sorted_desc_def mset_insort_desc)

lemma set_insort_desc: "set (insort_desc x ys) = insert x (set ys)"
  by (induction ys) auto

lemma fge_of_not_flt: "a \<noteq> NaN \<Longrightarrow> b \<noteq> NaN \<Longrightarrow> \<not> flt a b \<Longrightarrow> fge a b"
  by (cases a; cases b) (auto simp add: fge_def)

lemma fge_of_flt: "flt a b \<Longrightarrow> fge b a"
  by (cases a; cases b) (auto simp add: fge_def)

lemma fge_trans: "fge a b \<Longrightarrow> fge b c \<Longrightarrow> fge a c"
  by (cases a; cases b; cases c) (auto simp add: fge_def)

lemma sorted_insort_desc:
  assumes "sorted_wrt (\<lambda>a b. fge (total_score a) (total_score b)) ys"
    and "total_score x \<noteq> NaN" and "\<forall>y \<in> set ys. total_score y \<noteq> NaN"
  shows "sorted_wrt (\<lambda>a b. fge (total_score a) (total_score b)) (insort_desc x ys)"
  using assms
proof (induction ys)
  case Nil
  then show ?case by simp
next
  case (Cons y ys)
  show ?case
  proof (cases "flt (total_score x) (total_score y)")
    case True
    then have "fge (total_score y) (total_score x)" by (rule fge_of_flt)
    with True Cons show ?thesis by (auto simp add: set_insort_desc)
  next
    case False
    then have xy: "fge (total_score x) (total_score y)"
      using Cons.prems by (auto intro: fge_of_not_flt)
    then have "\<forall>z \<in> set ys. fge (total_score x) (total_score z)"
      using Cons.prems(1) by (auto intro: fge_trans)
    with False xy Cons.prems(1) show ?thesis by auto
  qed
qed

lemma sorted_sorted_desc:
  assumes "\<forall>y \<in> set xs. total_score y \<noteq> NaN"
  shows "sorted_wrt (\<lambda>a b. fge (total_score a) (total_score b)) (sorted_desc xs)"
  using assms
proof (induction xs)
  case Nil
  then show ?case by (simp add: sorted_desc_def)
next
  case (Cons x xs)
  then have "sorted_wrt (\<lambda>a b. fge (total_score a) (total_score b)) (sorted_desc xs)" by simp
  moreover have "\<forall>y \<in> set (sorted_desc xs). total_score y \<noteq> NaN"
    using Cons.prems mset_sorted_desc [of xs] by (metis list.set_intros(2) set_mset_mset)
  ultimately show ?case
    using Cons.prems sorted_insort_desc [of "sorted_desc xs" x] by (simp add: sorted_desc_def)
qed

text \<open>
  C9, at the input where the claim fails. An empty type list is given, so no type is allowed;
  yet a long signal of score 8 survives the filter with minimum 7: the source tests
  \<open>if signal_types and ...\<close>, and an empty list is falsy.
\<close>

theorem filter_signals_empty_types_counterexample:
  "filter_signals [aggregated_example ''BTCUSDT'' LONG (Fin 8)] (Fin 7) (Some [])
     = [aggregated_example ''BTCUSDT'' LONG (Fin 8)]
   \<and> LONG \<notin> set ([] :: SignalType list)"
  by (simp add: filter_signals_def sorted_desc_def aggregated_example_def)

text \<open>
  C9, as amended. For every list of aggregated signals whose scores are numbers, and a
  minimum score that is a number: the result of \<open>filter_signals\<close> holds exactly the signals
  (with their multiplicity) that are not neutral, whose \<open>total_score\<close> is not below
  \<open>min_score\<close>, and whose type is in the type list when a non-empty type list is given
  (\<open>None\<close> and the empty list restrict nothing); it is in descending order of \<open>total_score\<close>;
  and a non-neutral signal of an allowed type whose score equals \<open>min_score\<close> is kept.
\<close>

theorem filter_signals_spec:
  assumes "\<forall>s \<in> set signals. total_score s \<noteq> NaN" and "min_score \<noteq> NaN"
  shows "mset (filter_signals signals min_score signal_types)
           = mset (filter (survives min_score signal_types) signals)
       \<and> sorted_wrt (\<lambda>a b. fge (total_score a) (total_score b))
           (filter_signals signals min_score signal_types)
       \<and> (\<forall>s \<in> set (filter_signals signals min_score signal_types).
            s \<in> set signals \<and> signal_type s \<noteq> NEUTRAL \<and> fge (total_score s) min_score
            \<and> (\<forall>ts. signal_types = Some ts \<and> ts \<noteq> [] \<longrightarrow> signal_type s \<in> set ts))
       \<and> (\<forall>s \<in> set signals.
            signal_type s \<noteq> NEUTRAL \<and> total_score s = min_score
            \<and> (signal_types = None \<or> signal_type s \<in> set (the signal_types))
            \<longrightarrow> s \<in> set (filter_signals signals min_score signal_types))"
proof -
  let ?r = "filter_signals signals min_score signal_types"
  have m: "mset ?r = mset (filter (survives min_score signal_types) signals)"
    by (simp add: filter_signals_def filter_loop_append mset_sorted_desc)
  then have s: "set ?r = {s \<in> set signals. survives min_score signal_types s}"
    by (metis set_filter set_mset_mset)
  have "\<forall>y \<in> set (filter_loop min_score signal_types signals []). total_score y \<noteq> NaN"
    using assms(1) by (simp add: filter_loop_append)
  then have o: "sorted_wrt (\<lambda>a b. fge (total_score a) (total_score b)) ?r"
    unfolding filter_signals_def by (rule sorted_sorted_desc)
  have i: "\<forall>s \<in> set ?r. s \<in> set signals \<and> signal_type s \<noteq> NEUTRAL
      \<and> fge (total_score s) min_score
      \<and> (\<forall>ts. signal_types = Some ts \<and> ts \<noteq> [] \<longrightarrow> signal_type s \<in> set ts)"
    using assms fge_of_not_flt by (auto simp add: s survives_def)
  have b: "\<forall>s \<in> set signals. signal_type s \<noteq> NEUTRAL \<and> total_score s = min_score
      \<and> (signal_types = None \<or> signal_type s \<in> set (the signal_types))
      \<longrightarrow> s \<in> set ?r"
    by (auto simp add: s survives_def flt_irrefl split: option.splits)
  from m o i b show ?thesis by blast
qed

text \<open>
  Four signals and the minimum 7: the long one of score exactly 7 is kept, the short one of
  score 6.9 and the neutral one of score 9 are dropped, and the short one of score 8 comes
  first.
\<close>

theorem filter_signals_spec_witness:
  "total_score (aggregated_example ''A'' LONG (Fin 7)) \<noteq> NaN
   \<and> total_score (aggregated_example ''B'' SHORT (Fin (69 / 10))) \<noteq> NaN
   \<and> total_score (aggregated_example ''C'' NEUTRAL (Fin 9)) \<noteq> NaN
   \<and> total_score (aggregated_example ''D'' SHORT (Fin 8)) \<noteq> NaN
   \<and> Fin 7 \<noteq> NaN
   \<and> filter_signals
       [aggregated_example ''A'' LONG (Fin 7), aggregated_example ''B'' SHORT (Fin (69 / 10)),
        aggregated_example ''C'' NEUTRAL (Fin 9), aggregated_example ''D'' SHORT (Fin 8)]
       (Fin 7) None
     = [aggregated_example ''D'' SHORT (Fin 8), aggregated_example ''A'' LONG (Fin 7)]"
  using filter_signals_spec [of
      "[aggregated_example ''A'' LONG (Fin 7), aggregated_example ''B'' SHORT (Fin (69 / 10)),
        aggregated_example ''C'' NEUTRAL (Fin 9), aggregated_example ''D'' SHORT (Fin 8)]"
      "Fin 7" None]
  by (simp add: filter_signals_def sorted_desc_def aggregated_example_def)

subsection \<open>Relative strength index\<close>

text \<open>
  The two rolling averages of \<open>calculate_rsi\<close> are the averages of the positive and of the
  negative parts of the price changes; both are numbers, and not negative, once the window is
  complete.
\<close>

lemma where_gain: "series_where (\<lambda>d. fgt d (Fin 0)) (Fin 0) (diff xs) = map Fin (price_gains xs)"
  by (cases xs) (auto simp add: series_where_def diff_def price_gains_def fgt_def max_def)

lemma where_loss:
  "map fneg (series_where (\<lambda>d. flt d (Fin 0)) (Fin 0) (diff xs)) = map Fin (price_losses xs)"
  by (cases xs) (auto simp add: series_where_def diff_def price_losses_def max_def)

lemma foldl_fadd_Fin: "foldl fadd (Fin a) (map Fin xs) = Fin (a + sum_list xs)"
  by (induction xs arbitrary: a) (auto simp add: algebra_simps)

lemma window_at_map: "window_at w i (map f xs) = map f (window_at w i xs)"
  by (simp add: window_at_def take_map drop_map)

lemma rolling_mean_Fin:
  assumes "1 \<le> p"
  shows "rolling_mean p (map Fin xs)
     = Inr (map (\<lambda>i. if int i + 1 < p then NaN
                     else Fin (sum_list (window_at (nat p) i xs) / real (nat p)))
            [0..<length xs])"
  using assms by (auto simp add: rolling_mean_def window_at_map foldl_fadd_Fin)

lemma price_gains_nonneg: "x \<in> set (price_gains xs) \<Longrightarrow> 0 \<le> x"
  by (cases xs) (auto simp add: price_gains_def)

lemma price_losses_nonneg: "x \<in> set (price_losses xs) \<Longrightarrow> 0 \<le> x"
  by (cases xs) (auto simp add: price_losses_def)

lemma length_price_gains: "length (price_gains xs) = length xs"
  by (cases xs) (auto simp add: price_gains_def)

lemma length_price_losses: "length (price_losses xs) = length xs"
  by (cases xs) (auto simp add: price_losses_def)

lemma set_window_at: "x \<in> set (window_at w i xs) \<Longrightarrow> x \<in> set xs"
  unfolding window_at_def by (meson in_set_takeD in_set_dropD)

lemma avg_gain_nonneg: "0 \<le> avg_gain df w i"
proof -
  have "0 \<le> sum_list (window_at w i (price_gains (map close df)))"
    by (rule sum_list_nonneg) (auto dest: set_window_at price_gains_nonneg)
  then show ?thesis by (simp add: avg_gain_def)
qed

lemma avg_loss_nonneg: "0 \<le> avg_loss df w i"
proof -
  have "0 \<le> sum_list (window_at w i (price_losses (map close df)))"
    by (rule sum_list_nonneg) (auto dest: set_window_at price_losses_nonneg)
  then show ?thesis by (simp add: avg_loss_def)
qed

lemma rsi_gain_eq:
  assumes "1 \<le> p"
  shows "rsi_gain df p = Inr (map (\<lambda>i. if int i + 1 < p then NaN else Fin (avg_gain df (nat p) i))
            [0..<length df])"
  using assms
  by (simp add: rsi_gain_def where_gain rolling_mean_Fin length_price_gains avg_gain_def)

lemma rsi_loss_eq:
  assumes "1 \<le> p"
  shows "rsi_loss df p = Inr (map (\<lambda>i. if int i + 1 < p then NaN else Fin (avg_loss df (nat p) i))
            [0..<length df])"
  using assms
  by (simp add: rsi_loss_def where_loss rolling_mean_Fin length_price_losses avg_loss_def)


lemma calculate_rsi_nth:
  assumes "1 \<le> p" and "i < length df"
  shows "\<exists>rsi. calculate_rsi df p = Inr rsi \<and> length rsi = length df
     \<and> rsi ! i = (if int i + 1 < p then NaN
                  else fsub (Fin 100) (fdiv (Fin 100) (fadd (Fin 1)
                         (fdiv (Fin (avg_gain df (nat p) i)) (Fin (avg_loss df (nat p) i))))))"
  using assms
  by (simp add: calculate_rsi_def rsi_gain_eq rsi_loss_eq ebind_def fsub_def)

lemma rsi_value_pos:
  assumes "0 \<le> g" and "0 < l"
  shows "fsub (Fin 100) (fdiv (Fin 100) (fadd (Fin 1) (fdiv (Fin g) (Fin l))))
           = Fin (100 - 100 / (1 + g / l))"
    and "0 \<le> 100 - 100 / (1 + g / l)" and "100 - 100 / (1 + g / l) \<le> 100"
proof -
  have q: "0 \<le> g / l" using assms by simp
  then have "1 + g / l \<noteq> 0" by linarith
  with assms show "fsub (Fin 100) (fdiv (Fin 100) (fadd (Fin 1) (fdiv (Fin g) (Fin l))))
           = Fin (100 - 100 / (1 + g / l))"
    by (simp add: fsub_def)
  have "100 / (1 + g / l) \<le> 100 / 1"
    using q by (intro divide_left_mono) auto
  then show "0 \<le> 100 - 100 / (1 + g / l)" by simp
  have "0 \<le> 100 / (1 + g / l)" using q by simp
  then show "100 - 100 / (1 + g / l) \<le> 100" by simp
qed

lemma rsi_value_zero_loss:
  "0 < g \<Longrightarrow> fsub (Fin 100) (fdiv (Fin 100) (fadd (Fin 1) (fdiv (Fin g) (Fin 0)))) = Fin 100"
  "fsub (Fin 100) (fdiv (Fin 100) (fadd (Fin 1) (fdiv (Fin 0) (Fin 0)))) = NaN"
  by (simp_all add: fsub_def)

text \<open>
  C8, as amended. For every price series, every period of at least 1 and every position \<open>i\<close>
  at which the window of \<open>period\<close> bars is complete, \<open>calculate_rsi\<close> returns a series of the
  length of the input, and with \<open>g\<close> and \<open>l\<close> the average gain and the average loss over the
  window: when \<open>l > 0\<close> the RSI is \<open>100 - 100 / (1 + g / l)\<close> and lies in \<open>[0, 100]\<close>; when
  \<open>l = 0\<close> and \<open>g > 0\<close> the RSI is exactly 100; and when both are 0 (no price change in the
  window) the RSI is not-a-number.
\<close>

theorem calculate_rsi_range:
  assumes "1 \<le> period" and "period \<le> int i + 1" and "i < length df"
  shows "\<exists>rsi. calculate_rsi df period = Inr rsi \<and> length rsi = length df
     \<and> 0 \<le> avg_gain df (nat period) i \<and> 0 \<le> avg_loss df (nat period) i
     \<and> (0 < avg_loss df (nat period) i
          \<longrightarrow> (\<exists>r. rsi ! i = Fin r \<and> 0 \<le> r \<and> r \<le> 100
                 \<and> r = 100 - 100 / (1 + avg_gain df (nat period) i / avg_loss df (nat period) i)))
     \<and> (avg_loss df (nat period) i = 0 \<and> 0 < avg_gain df (nat period) i
          \<longrightarrow> rsi ! i = Fin 100)
     \<and> (avg_loss df (nat period) i = 0 \<and> avg_gain df (nat period) i = 0
          \<longrightarrow> rsi ! i = NaN)"
proof -
  let ?g = "avg_gain df (nat period) i" and ?l = "avg_loss df (nat period) i"
  obtain rsi where r: "calculate_rsi df period = Inr rsi" "length rsi = length df"
      "rsi ! i = fsub (Fin 100) (fdiv (Fin 100) (fadd (Fin 1) (fdiv (Fin ?g) (Fin ?l))))"
    using calculate_rsi_nth [OF assms(1) assms(3)] assms(2) by auto
  have g: "0 \<le> ?g" by (rule avg_gain_nonneg)
  have l: "0 \<le> ?l" by (rule avg_loss_nonneg)
  have pos: "0 < ?l \<longrightarrow> (\<exists>r. rsi ! i = Fin r \<and> 0 \<le> r \<and> r \<le> 100
      \<and> r = 100 - 100 / (1 + ?g / ?l))"
    using rsi_value_pos [OF g] r(3) by auto
  have sat: "?l = 0 \<and> 0 < ?g \<longrightarrow> rsi ! i = Fin 100"
    using rsi_value_zero_loss(1) r(3) by auto
  have nan: "?l = 0 \<and> ?g = 0 \<longrightarrow> rsi ! i = NaN"
    using rsi_value_zero_loss(2) r(3) by auto
  from r(1,2) g l pos sat nan show ?thesis by blast
qed

text \<open>
  With period 2: the closes 100, 110, 105 have average gain 5 and average loss 2.5 at the
  last bar, and the RSI is \<open>100 - 100/3\<close>; the closes 100, 110, 120 have no loss, and the RSI
  is exactly 100.
\<close>

theorem calculate_rsi_range_witness:
  "(1::int) \<le> 2 \<and> (2::int) \<le> int 2 + 1
   \<and> 2 < length [flat_bar 100 1, flat_bar 110 1, flat_bar 105 1]
   \<and> 0 < avg_loss [flat_bar 100 1, flat_bar 110 1, flat_bar 105 1] 2 2
   \<and> projr (calculate_rsi [flat_bar 100 1, flat_bar 110 1, flat_bar 105 1] 2) ! 2
       = Fin (200 / 3)
   \<and> avg_loss [flat_bar 100 1, flat_bar 110 1, flat_bar 120 1] 2 2 = 0
   \<and> 0 < avg_gain [flat_bar 100 1, flat_bar 110 1, flat_bar 120 1] 2 2
   \<and> projr (calculate_rsi [flat_bar 100 1, flat_bar 110 1, flat_bar 120 1] 2) ! 2 = Fin 100"
proof -
  have a: "avg_gain [flat_bar 100 1, flat_bar 110 1, flat_bar 105 1] 2 2 = 5"
      "avg_loss [flat_bar 100 1, flat_bar 110 1, flat_bar 105 1] 2 2 = 5 / 2"
    by (simp_all add: avg_gain_def avg_loss_def window_at_def price_gains_def price_losses_def
        flat_bar_def)
  have b: "avg_gain [flat_bar 100 1, flat_bar 110 1, flat_bar 120 1] 2 2 = 10"
      "avg_loss [flat_bar 100 1, flat_bar 110 1, flat_bar 120 1] 2 2 = 0"
    by (simp_all add: avg_gain_def avg_loss_def window_at_def price_gains_def price_losses_def
        flat_bar_def)
  show ?thesis
    using calculate_rsi_range [of 2 2 "[flat_bar 100 1, flat_bar 110 1, flat_bar 105 1]"]
      calculate_rsi_range [of 2 2 "[flat_bar 100 1, flat_bar 110 1, flat_bar 120 1]"]
    by (auto simp add: a b)
qed

text \<open>
  C8, at the input where the claim fails. Fifteen bars of the same close and the default
  period 14: the average loss over the last window is 0, and so is the average gain; the RSI
  of the last bar is \<open>0 / 0\<close> carried through the formula, not-a-number, which is neither 100
  nor a value of \<open>[0, 100]\<close>.
\<close>

theorem calculate_rsi_flat_counterexample:
  "last (projr (calculate_rsi (replicate 15 (flat_bar 100 1)) 14)) = NaN
   \<and> avg_loss (replicate 15 (flat_bar 100 1)) 14 14 = 0"
  by code_simp

subsection \<open>Insufficient data\<close>

text \<open>
  The smoothing, the MACD, the volume ratio and the RSI return a result for any series they
  can index; the entry point returns a signal once the series is long enough and the EMA
  periods are valid.
\<close>

lemma length_ewm_from: "length (ewm_from alpha prev xs) = length xs"
  by (induction xs arbitrary: prev) (auto simp add: Let_def)

lemma ewm_mean_total:
  assumes "1 \<le> s"
  shows "\<exists>ys. ewm_mean s xs = Inr ys \<and> length ys = length xs"
  using assms by (cases xs) (auto simp add: ewm_mean_def length_ewm_from)

lemma calculate_ema_total:
  assumes "1 \<le> period"
  shows "\<exists>ys. calculate_ema df period = Inr ys \<and> length ys = length df"
  using ewm_mean_total [OF assms, of "map close df"] by (simp add: calculate_ema_def)

lemma calculate_macd_total:
  assumes "1 \<le> fast" and "1 \<le> slow" and "1 \<le> sig"
  shows "\<exists>m s h. calculate_macd df fast slow sig = Inr (m, s, h) \<and> length m = length df
     \<and> length s = length df \<and> length h = length df"
proof -
  obtain f where f: "ewm_mean fast (map close df) = Inr f" "length f = length df"
    using ewm_mean_total [OF assms(1), of "map close df"] by auto
  obtain sl where sl: "ewm_mean slow (map close df) = Inr sl" "length sl = length df"
    using ewm_mean_total [OF assms(2), of "map close df"] by auto
  obtain sg where sg: "ewm_mean sig (map2 (\<lambda>a b. a - b) f sl) = Inr sg"
      "length sg = length (map2 (\<lambda>a b. a - b) f sl)"
    using ewm_mean_total [OF assms(3), of "map2 (\<lambda>a b. a - b) f sl"] by auto
  from f sl sg show ?thesis
    by (simp add: calculate_macd_def ebind_def Let_def)
qed

lemma calculate_volume_ratio_total:
  assumes "df \<noteq> []"
  shows "\<exists>r. calculate_volume_ratio df period = Inr r"
  using assms by (simp add: calculate_volume_ratio_def iloc_last_def ebind_def Let_def)

lemma analyze_technicals_short:
  assumes "int (length df) < max ema_long_period 26 + 10"
  shows "analyze_technicals df symb timeframe rsi_oversold rsi_overbought ema_short_period
           ema_long_period volume_spike_threshold = None"
  using assms by (simp add: analyze_technicals_def analyze_technicals_body_def)


lemma calculate_rsi_total:
  assumes "1 \<le> p"
  shows "\<exists>rs. calculate_rsi df p = Inr rs \<and> length rs = length df"
  using assms by (simp add: calculate_rsi_def rsi_gain_eq rsi_loss_eq ebind_def)

lemma calculate_rsi_warmup:
  assumes "1 \<le> p"
  shows "\<exists>rs. calculate_rsi df p = Inr rs \<and> length rs = length df
     \<and> (\<forall>i < length df. int i + 1 < p \<longrightarrow> rs ! i = NaN)"
proof -
  obtain rs where rs: "calculate_rsi df p = Inr rs" "length rs = length df"
    using calculate_rsi_total [OF assms] by blast
  have "rs ! i = NaN" if "i < length df" "int i + 1 < p" for i
    using calculate_rsi_nth [OF assms that(1)] that(2) rs(1) by auto
  with rs show ?thesis by blast
qed

lemma analyze_technicals_long:
  assumes "max ema_long_period 26 + 10 \<le> int (length df)"
    and "1 \<le> ema_short_period" and "1 \<le> ema_long_period"
  shows "\<exists>s. analyze_technicals df symb timeframe rsi_oversold rsi_overbought ema_short_period
           ema_long_period volume_spike_threshold = Some s"
proof -
  have n: "36 \<le> length df" using assms(1) by linarith
  then have ne: "df \<noteq> []" by auto
  obtain rs where rs: "calculate_rsi df 14 = Inr rs" "length rs = length df"
    using calculate_rsi_total [of 14 df] by auto
  obtain m sg h where m: "calculate_macd df 12 26 9 = Inr (m, sg, h)" "length m = length df"
      "length sg = length df" "length h = length df"
    using calculate_macd_total [of 12 26 9 df] by auto
  obtain es where es: "calculate_ema df ema_short_period = Inr es" "length es = length df"
    using calculate_ema_total [OF assms(2)] by blast
  obtain el where el: "calculate_ema df ema_long_period = Inr el" "length el = length df"
    using calculate_ema_total [OF assms(3)] by blast
  obtain vr where vr: "calculate_volume_ratio df 20 = Inr vr"
    using calculate_volume_ratio_total [OF ne] by blast
  have nonempty: "rs \<noteq> []" "m \<noteq> []" "sg \<noteq> []" "h \<noteq> []" "es \<noteq> []" "el \<noteq> []"
    using rs(2) m(2,3,4) es(2) el(2) ne by auto
  have guard: "\<not> int (length df) < max ema_long_period 26 + 10"
    using assms(1) by simp
  have two: "2 \<le> length df" "\<not> length df < 2" using n by auto
  show ?thesis
    unfolding analyze_technicals_def analyze_technicals_body_def
    using guard rs(1) m(1) es(1) el(1) vr nonempty ne two
    by (simp add: ebind_def iloc_last_def iloc_prev_def Let_def split: prod.splits)
qed

text \<open>
  C7, at the input where the claim fails. On a single bar, far below the periods 26 and 20,
  \<open>calculate_ema\<close>, \<open>calculate_macd\<close> and \<open>calculate_volume_ratio\<close> return numbers (the close
  itself, a MACD of 0, a ratio of 1) and report nothing to the caller.
\<close>

theorem indicators_silent_counterexample:
  "calculate_ema [flat_bar 100 1] 26 = Inr [100]
   \<and> calculate_macd [flat_bar 100 1] 12 26 9 = Inr ([0], [0], [0])
   \<and> calculate_volume_ratio [flat_bar 100 1] 20 = Inr (Fin 1)"
  by (simp add: calculate_ema_def calculate_macd_def calculate_volume_ratio_def ewm_mean_def
      flat_bar_def series_tail_def series_mean_def iloc_last_def ebind_def fgt_def Let_def)

text \<open>
  C7, as amended. The insufficient-data condition is reported by the entry point alone:
  \<open>analyze_technicals\<close> returns no signal (\<open>None\<close>) whenever the series has fewer than
  \<open>max(ema_long_period, 26) + 10\<close> bars, and returns a signal for a longer series when both
  EMA periods are at least 1. The indicator functions do not check the length of the series:
  \<open>calculate_ema\<close> and \<open>calculate_macd\<close> return a value for every bar of any series when their
  periods are at least 1, \<open>calculate_volume_ratio\<close> returns a ratio for any non-empty series,
  and \<open>calculate_rsi\<close> returns a series that is not-a-number at every position with fewer than
  \<open>period\<close> bars.
\<close>

theorem insufficient_data_handling:
  "(int (length df) < max ema_long_period 26 + 10
      \<longrightarrow> analyze_technicals df symb timeframe rsi_oversold rsi_overbought ema_short_period
            ema_long_period volume_spike_threshold = None)
   \<and> (max ema_long_period 26 + 10 \<le> int (length df) \<and> 1 \<le> ema_short_period
        \<and> 1 \<le> ema_long_period
      \<longrightarrow> (\<exists>s. analyze_technicals df symb timeframe rsi_oversold rsi_overbought
                 ema_short_period ema_long_period volume_spike_threshold = Some s))
   \<and> (1 \<le> period
      \<longrightarrow> (\<exists>ys. calculate_ema df period = Inr ys \<and> length ys = length df))
   \<and> (1 \<le> fast \<and> 1 \<le> slow \<and> 1 \<le> sig
      \<longrightarrow> (\<exists>m s h. calculate_macd df fast slow sig = Inr (m, s, h) \<and> length m = length df
             \<and> length s = length df \<and> length h = length df))
   \<and> (df \<noteq> [] \<longrightarrow> (\<exists>r. calculate_volume_ratio df volume_period = Inr r))
   \<and> (1 \<le> rsi_period
      \<longrightarrow> (\<exists>rs. calculate_rsi df rsi_period = Inr rs \<and> length rs = length df
             \<and> (\<forall>i < length df. int i + 1 < rsi_period \<longrightarrow> rs ! i = NaN)))"
  using analyze_technicals_short [of df ema_long_period symb timeframe rsi_oversold
      rsi_overbought ema_short_period volume_spike_threshold]
    analyze_technicals_long [of ema_long_period df ema_short_period symb timeframe rsi_oversold
      rsi_overbought volume_spike_threshold]
    calculate_ema_total [of period df] calculate_macd_total [of fast slow sig df]
    calculate_volume_ratio_total [of df volume_period] calculate_rsi_warmup [of rsi_period df]
  by blast

text \<open>
  Thirty-five bars with the default periods give no signal and thirty-six give one; on two
  bars the EMA of period 12 is 100 and 102, the MACD has two values, the volume ratio is
  \<open>3 / 2\<close> and the RSI of period 14 is not-a-number twice.
\<close>

theorem insufficient_data_handling_witness:
  "int (length (replicate 35 (flat_bar 100 1))) < max 26 26 + 10
   \<and> analyze_technicals (replicate 35 (flat_bar 100 1)) ''BTCUSDT'' ''1h'' (Fin 30) (Fin 70) 12
       26 (Fin 2) = None
   \<and> max 26 26 + 10 \<le> int (length (replicate 36 (flat_bar 100 1)))
   \<and> (\<exists>s. analyze_technicals (replicate 36 (flat_bar 100 1)) ''BTCUSDT'' ''1h'' (Fin 30)
            (Fin 70) 12 26 (Fin 2) = Some s)
   \<and> (1::int) \<le> 12 \<and> (1::int) \<le> 26 \<and> (1::int) \<le> 9 \<and> (1::int) \<le> 14
   \<and> calculate_ema [flat_bar 100 1, flat_bar 113 1] 12 = Inr [100, 102]
   \<and> (\<exists>m s h. calculate_macd [flat_bar 100 1, flat_bar 113 3] 12 26 9 = Inr (m, s, h)
         \<and> length m = 2 \<and> length s = 2 \<and> length h = 2)
   \<and> [flat_bar 100 1, flat_bar 113 3] \<noteq> []
   \<and> calculate_volume_ratio [flat_bar 100 1, flat_bar 113 3] 20 = Inr (Fin (3 / 2))
   \<and> (\<exists>rs. calculate_rsi [flat_bar 100 1, flat_bar 113 3] 14 = Inr rs
         \<and> rs ! 0 = NaN \<and> rs ! 1 = NaN)"
proof -
  have short: "int (length (replicate 35 (flat_bar 100 1))) < max 26 26 + 10"
    by simp
  have none: "analyze_technicals (replicate 35 (flat_bar 100 1)) ''BTCUSDT'' ''1h'' (Fin 30)
      (Fin 70) 12 26 (Fin 2) = None"
    using insufficient_data_handling [of "replicate 35 (flat_bar 100 1)" 26 "''BTCUSDT''"
        "''1h''" "Fin 30" "Fin 70" 12 "Fin 2"] short
    by blast
  have long: "max 26 26 + 10 \<le> int (length (replicate 36 (flat_bar 100 1)))"
    by simp
  have some: "\<exists>s. analyze_technicals (replicate 36 (flat_bar 100 1)) ''BTCUSDT'' ''1h''
      (Fin 30) (Fin 70) 12 26 (Fin 2) = Some s"
    using insufficient_data_handling [of "replicate 36 (flat_bar 100 1)" 26 "''BTCUSDT''"
        "''1h''" "Fin 30" "Fin 70" 12 "Fin 2"] long
    by simp
  have two: "length [flat_bar 100 1, flat_bar 113 3] = 2"
    by simp
  have macd: "\<exists>m s h. calculate_macd [flat_bar 100 1, flat_bar 113 3] 12 26 9 = Inr (m, s, h)
      \<and> length m = 2 \<and> length s = 2 \<and> length h = 2"
    using insufficient_data_handling [of "[flat_bar 100 1, flat_bar 113 3]" 26 "''BTCUSDT''"
        "''1h''" "Fin 30" "Fin 70" 12 "Fin 2" 12 12 26 9 20 14]
    unfolding two by simp
  have rsi: "\<exists>rs. calculate_rsi [flat_bar 100 1, flat_bar 113 3] 14 = Inr rs
      \<and> rs ! 0 = NaN \<and> rs ! 1 = NaN"
    using insufficient_data_handling [of "[flat_bar 100 1, flat_bar 113 3]" 26 "''BTCUSDT''"
        "''1h''" "Fin 30" "Fin 70" 12 "Fin 2" 12 12 26 9 20 14]
    unfolding two by auto
  have ema: "calculate_ema [flat_bar 100 1, flat_bar 113 1] 12 = Inr [100, 102]"
    by (simp add: calculate_ema_def ewm_mean_def flat_bar_def)
  have vol: "calculate_volume_ratio [flat_bar 100 1, flat_bar 113 3] 20 = Inr (Fin (3 / 2))"
    by (simp add: calculate_volume_ratio_def flat_bar_def series_tail_def series_mean_def
        iloc_last_def ebind_def fgt_def)
  from short none long some macd rsi ema vol show ?thesis by simp
qed

end
